theory Spec2Isabelle
  imports Main "HOL-Library.AList"
begin

section \<open>JavaScript strings and values\<close>

text \<open>
  A JavaScript string is a sequence of UTF-16 code units; each code unit is a natural
  number below \<open>65536\<close>. Source literals are written \<open>js ''...''\<close>.
\<close>

type_synonym jsstring = "nat list"

definition js :: "string \<Rightarrow> jsstring" where
  "js s = map of_char s"

text \<open>
  The values that flow through the request layer: \<open>undefined\<close>, and the values of the
  JSON data model. An object is the list of its own properties in enumeration order.
  Numbers are IEEE-754 doubles in the program; their arithmetic is not modelled.
  The type of numbers is a parameter \<open>'n\<close>, and the four primitives on numbers that the
  program reaches are the fields of \<open>number_ops\<close>, so that every theorem below holds for
  each interpretation of them.
\<close>

datatype 'n jsval =
    JUndefined
  | JNull
  | JBool bool
  | JNum 'n
  | JStr jsstring
  | JArr "'n jsval list"
  | JObj "(jsstring \<times> 'n jsval) list"

record 'n number_ops =
  num_of_literal :: "jsstring \<Rightarrow> 'n"
  num_is_falsy :: "'n \<Rightarrow> bool"
  num_is_finite :: "'n \<Rightarrow> bool"
  num_to_string :: "'n \<Rightarrow> jsstring"

text \<open>
  An interpretation of the number primitives used to evaluate examples: a number is kept
  as its decimal literal, it is falsy when the literal has no non-zero digit before the
  exponent, and it prints as the literal.
\<close>

definition literal_numbers :: "jsstring number_ops" where
  "literal_numbers =
     \<lparr> num_of_literal = (\<lambda>l. l),
       num_is_falsy = (\<lambda>l. list_all (\<lambda>c. c < 49 \<or> 57 < c) (takeWhile (\<lambda>c. c \<noteq> 101 \<and> c \<noteq> 69) l)),
       num_is_finite = (\<lambda>l. True),
       num_to_string = (\<lambda>l. l) \<rparr>"

datatype error = TypeError | SyntaxError | URIError | NetworkError

text \<open>\<open>ToBoolean\<close>: the test of \<open>if (data)\<close> and \<open>if (token)\<close>.\<close>

fun truthy :: "'n number_ops \<Rightarrow> 'n jsval \<Rightarrow> bool" where
  "truthy ops JUndefined = False"
| "truthy ops JNull = False"
| "truthy ops (JBool b) = b"
| "truthy ops (JNum n) = (\<not> num_is_falsy ops n)"
| "truthy ops (JStr s) = (s \<noteq> [])"
| "truthy ops (JArr xs) = True"
| "truthy ops (JObj ps) = True"

section \<open>\<open>JSON.stringify\<close>\<close>

definition hex_digit :: "nat \<Rightarrow> nat" where
  "hex_digit d = (if d < 10 then 48 + d else 87 + d)"

definition unicode_escape :: "nat \<Rightarrow> jsstring" where
  "unicode_escape c =
     [92, 117, hex_digit (c div 4096 mod 16), hex_digit (c div 256 mod 16),
      hex_digit (c div 16 mod 16), hex_digit (c mod 16)]"

definition is_lead_surrogate :: "nat \<Rightarrow> bool" where
  "is_lead_surrogate c = (55296 \<le> c \<and> c \<le> 56319)"

definition is_trail_surrogate :: "nat \<Rightarrow> bool" where
  "is_trail_surrogate c = (56320 \<le> c \<and> c \<le> 57343)"

definition quote_unit :: "nat \<Rightarrow> jsstring" where
  "quote_unit c =
     (if c = 8 then [92, 98] else if c = 9 then [92, 116] else if c = 10 then [92, 110]
      else if c = 12 then [92, 102] else if c = 13 then [92, 114]
      else if c = 34 then [92, 34] else if c = 92 then [92, 92]
      else if c < 32 then unicode_escape c else [c])"

fun quote_units :: "jsstring \<Rightarrow> jsstring" where
  "quote_units [] = []"
| "quote_units [c] =
     (if is_lead_surrogate c \<or> is_trail_surrogate c then unicode_escape c else quote_unit c)"
| "quote_units (c # d # cs) =
     (if is_lead_surrogate c then
        (if is_trail_surrogate d then c # d # quote_units cs
         else unicode_escape c @ quote_units (d # cs))
      else if is_trail_surrogate c then unicode_escape c @ quote_units (d # cs)
      else quote_unit c @ quote_units (d # cs))"

definition quote_json_string :: "jsstring \<Rightarrow> jsstring" where
  "quote_json_string s = [34] @ quote_units s @ [34]"

fun join :: "jsstring \<Rightarrow> jsstring list \<Rightarrow> jsstring" where
  "join sep [] = []"
| "join sep [x] = x"
| "join sep (x # y # ys) = x @ sep @ join sep (y # ys)"

text \<open>
  \<open>JSON.stringify(value)\<close> with no replacer and no indentation. The result \<open>None\<close> is
  \<open>undefined\<close>. In an array \<open>undefined\<close> is written \<open>null\<close>; in an object a property whose
  value is \<open>undefined\<close> is left out.
\<close>

fun JSON_stringify :: "'n number_ops \<Rightarrow> 'n jsval \<Rightarrow> jsstring option" where
  "JSON_stringify ops JUndefined = None"
| "JSON_stringify ops JNull = Some (js ''null'')"
| "JSON_stringify ops (JBool b) = Some (if b then js ''true'' else js ''false'')"
| "JSON_stringify ops (JNum n) =
     Some (if num_is_finite ops n then num_to_string ops n else js ''null'')"
| "JSON_stringify ops (JStr s) = Some (quote_json_string s)"
| "JSON_stringify ops (JArr xs) =
     Some ([91] @
           join [44] (map (\<lambda>x. case JSON_stringify ops x of None \<Rightarrow> js ''null'' | Some t \<Rightarrow> t) xs)
           @ [93])"
| "JSON_stringify ops (JObj ps) =
     Some ([123] @
           join [44] (concat (map (\<lambda>(k, v). case JSON_stringify ops v of
                                                None \<Rightarrow> []
                                              | Some t \<Rightarrow> [quote_json_string k @ [58] @ t]) ps))
           @ [125])"

section \<open>The request client (\<open>src/searu-dash/src/lib/api.ts\<close>)\<close>

definition base :: jsstring where
  "base = js ''http://localhost:8000/api''"

text \<open>
  The argument of \<open>req\<close>. \<open>data\<close> is \<open>any\<close>, absent is \<open>JUndefined\<close>; \<open>token\<close> is an optional
  string, absent is \<open>None\<close>.
\<close>

record 'n req_args =
  arg_method :: jsstring
  arg_path :: jsstring
  arg_data :: "'n jsval"
  arg_token :: "jsstring option"

text \<open>
  The options object handed to \<open>fetch\<close>. \<open>headers\<close> starts as \<open>{}\<close>; \<open>body\<close> starts as the
  empty string and receives the result of \<open>JSON.stringify\<close> (\<open>None\<close> is \<open>undefined\<close>).
\<close>

record opts =
  http_method :: jsstring
  headers :: "(string \<times> jsstring) list"
  body :: "jsstring option"

definition set_header :: "string \<Rightarrow> jsstring \<Rightarrow> opts \<Rightarrow> opts" where
  "set_header k v opts = opts\<lparr>headers := AList.update k v (headers opts)\<rparr>"

text \<open>Lines 14 to 24 of \<open>req\<close>: the options built from the argument.\<close>

definition req_opts :: "'n number_ops \<Rightarrow> 'n req_args \<Rightarrow> opts" where
  "req_opts ops a =
     (let opts0 = \<lparr> http_method = arg_method a, headers = [], body = Some [] \<rparr>;
          opts1 = (if truthy ops (arg_data a)
                   then (set_header ''Content-Type'' (js ''application/json'') opts0)
                          \<lparr>body := JSON_stringify ops (arg_data a)\<rparr>
                   else opts0);
          opts2 = (case arg_token a of
                     None \<Rightarrow> opts1
                   | Some t \<Rightarrow> if t \<noteq> [] then set_header ''Authorization'' (js ''Token '' @ t) opts1
                              else opts1)
      in opts2)"

definition req_url :: "'n req_args \<Rightarrow> jsstring" where
  "req_url a = base @ js ''/'' @ arg_path a"

section \<open>\<open>JSON.parse\<close>\<close>

text \<open>
  The JSON grammar of ECMA-404, as \<open>JSON.parse\<close> reads it: the text is cut into tokens,
  and the tokens drive a pushdown automaton that builds the value. A text outside the
  grammar is a \<open>SyntaxError\<close>.
\<close>

datatype token =
    TLBrace | TRBrace | TLBrack | TRBrack | TComma | TColon
  | TString jsstring | TNumber jsstring | TTrue | TFalse | TNull

definition is_ws :: "nat \<Rightarrow> bool" where
  "is_ws c = (c = 9 \<or> c = 10 \<or> c = 13 \<or> c = 32)"

definition is_digit :: "nat \<Rightarrow> bool" where
  "is_digit c = (48 \<le> c \<and> c \<le> 57)"

definition hex_value :: "nat \<Rightarrow> nat option" where
  "hex_value c =
     (if 48 \<le> c \<and> c \<le> 57 then Some (c - 48)
      else if 97 \<le> c \<and> c \<le> 102 then Some (c - 87)
      else if 65 \<le> c \<and> c \<le> 70 then Some (c - 55)
      else None)"

definition hex4 :: "nat \<Rightarrow> nat \<Rightarrow> nat \<Rightarrow> nat \<Rightarrow> nat option" where
  "hex4 a b c d =
     (case (hex_value a, hex_value b, hex_value c, hex_value d) of
        (Some x, Some y, Some z, Some w) \<Rightarrow> Some (4096 * x + 256 * y + 16 * z + w)
      | _ \<Rightarrow> None)"

definition simple_escape :: "nat \<Rightarrow> nat option" where
  "simple_escape e =
     (if e = 34 then Some 34 else if e = 92 then Some 92 else if e = 47 then Some 47
      else if e = 98 then Some 8 else if e = 102 then Some 12 else if e = 110 then Some 10
      else if e = 114 then Some 13 else if e = 116 then Some 9 else None)"

definition cons_unit :: "nat \<Rightarrow> (jsstring \<times> jsstring) option \<Rightarrow> (jsstring \<times> jsstring) option" where
  "cons_unit u r = (case r of None \<Rightarrow> None | Some (s, rest) \<Rightarrow> Some (u # s, rest))"

text \<open>The characters of a string token after its opening quote, and the rest of the text.\<close>

fun lex_string :: "jsstring \<Rightarrow> (jsstring \<times> jsstring) option" where
  "lex_string [] = None"
| "lex_string (c # cs) =
     (if c = 34 then Some ([], cs)
      else if c = 92 then
        (case cs of
           [] \<Rightarrow> None
         | e # es \<Rightarrow>
             if e = 117 then
               (case es of
                  h1 # h2 # h3 # h4 # rest \<Rightarrow>
                    (case hex4 h1 h2 h3 h4 of
                       None \<Rightarrow> None
                     | Some u \<Rightarrow> cons_unit u (lex_string rest))
                | _ \<Rightarrow> None)
             else
               (case simple_escape e of
                  None \<Rightarrow> None
                | Some u \<Rightarrow> cons_unit u (lex_string es)))
      else if c < 32 then None
      else cons_unit c (lex_string cs))"

text \<open>
  A number token: an optional minus, an integer part without a leading zero, an optional
  fraction and an optional exponent. The result is the literal and the rest of the text.
\<close>

definition lex_digits :: "jsstring \<Rightarrow> (jsstring \<times> jsstring) option" where
  "lex_digits cs =
     (if takeWhile is_digit cs = [] then None
      else Some (takeWhile is_digit cs, dropWhile is_digit cs))"

definition lex_int :: "jsstring \<Rightarrow> (jsstring \<times> jsstring) option" where
  "lex_int cs =
     (case cs of
        [] \<Rightarrow> None
      | d # ds \<Rightarrow> if d = 48 then Some ([48], ds) else lex_digits cs)"

definition lex_frac :: "jsstring \<Rightarrow> (jsstring \<times> jsstring) option" where
  "lex_frac cs =
     (case cs of
        [] \<Rightarrow> Some ([], cs)
      | c # ds \<Rightarrow> if c = 46 then cons_unit 46 (lex_digits ds) else Some ([], cs))"

definition lex_exp :: "jsstring \<Rightarrow> (jsstring \<times> jsstring) option" where
  "lex_exp cs =
     (case cs of
        [] \<Rightarrow> Some ([], cs)
      | c # ds \<Rightarrow>
          if c = 101 \<or> c = 69 then
            (case ds of
               [] \<Rightarrow> None
             | s # es \<Rightarrow> if s = 43 \<or> s = 45 then cons_unit c (cons_unit s (lex_digits es))
                        else cons_unit c (lex_digits ds))
          else Some ([], cs))"

definition lex_number :: "jsstring \<Rightarrow> (jsstring \<times> jsstring) option" where
  "lex_number cs =
     (let (sign, r0) = (case cs of [] \<Rightarrow> ([], cs) | c # ds \<Rightarrow> if c = 45 then ([45], ds) else ([], cs))
      in case lex_int r0 of
           None \<Rightarrow> None
         | Some (i, r1) \<Rightarrow>
             (case lex_frac r1 of
                None \<Rightarrow> None
              | Some (f, r2) \<Rightarrow>
                  (case lex_exp r2 of
                     None \<Rightarrow> None
                   | Some (e, r3) \<Rightarrow> Some (sign @ i @ f @ e, r3))))"

definition strip_prefix :: "jsstring \<Rightarrow> jsstring \<Rightarrow> jsstring option" where
  "strip_prefix p cs = (if take (length p) cs = p then Some (drop (length p) cs) else None)"

definition cons_token :: "token \<Rightarrow> token list option \<Rightarrow> token list option" where
  "cons_token t r = (case r of None \<Rightarrow> None | Some ts \<Rightarrow> Some (t # ts))"

lemma cons_unit_length:
  "cons_unit u r = Some (s, rest) \<Longrightarrow> \<exists>s'. r = Some (s', rest)"
  by (auto simp: cons_unit_def split: option.splits)

lemma lex_string_length: "lex_string cs = Some (s, rest) \<Longrightarrow> length rest < length cs"
proof (induction cs arbitrary: s rest rule: lex_string.induct)
  case 1
  then show ?case by simp
next
  case (2 c cs)
  show ?case
    using "2.prems" "2.IH"
    by (fastforce simp: less_Suc_eq split: if_splits list.splits option.splits dest!: cons_unit_length)
qed

lemma lex_digits_length: "lex_digits cs = Some (s, rest) \<Longrightarrow> length rest < length cs"
  unfolding lex_digits_def
  by (cases cs) (auto split: if_splits simp: less_Suc_eq_le length_dropWhile_le)

lemma lex_int_length: "lex_int cs = Some (s, rest) \<Longrightarrow> length rest < length cs"
  unfolding lex_int_def
  by (auto split: list.splits if_splits dest: lex_digits_length)

lemma lex_frac_length: "lex_frac cs = Some (s, rest) \<Longrightarrow> length rest \<le> length cs"
  unfolding lex_frac_def
  by (auto split: list.splits if_splits dest!: cons_unit_length dest: lex_digits_length)

lemma lex_exp_length: "lex_exp cs = Some (s, rest) \<Longrightarrow> length rest \<le> length cs"
  unfolding lex_exp_def
  by (fastforce split: list.splits if_splits dest!: cons_unit_length dest: lex_digits_length)

lemma lex_number_length: "lex_number cs = Some (s, rest) \<Longrightarrow> length rest < length cs"
  unfolding lex_number_def Let_def
  by (fastforce split: list.splits if_splits option.splits prod.splits dest: lex_int_length lex_frac_length lex_exp_length)

lemma strip_prefix_length: "strip_prefix p cs = Some rest \<Longrightarrow> p \<noteq> [] \<Longrightarrow> length rest < length cs"
  unfolding strip_prefix_def
  by (cases cs) (auto split: if_splits)

function tokenize :: "jsstring \<Rightarrow> token list option" where
  "tokenize [] = Some []"
| "tokenize (c # cs) =
     (if is_ws c then tokenize cs
      else if c = 123 then cons_token TLBrace (tokenize cs)
      else if c = 125 then cons_token TRBrace (tokenize cs)
      else if c = 91 then cons_token TLBrack (tokenize cs)
      else if c = 93 then cons_token TRBrack (tokenize cs)
      else if c = 44 then cons_token TComma (tokenize cs)
      else if c = 58 then cons_token TColon (tokenize cs)
      else if c = 34 then
        (case lex_string cs of
           None \<Rightarrow> None
         | Some (s, rest) \<Rightarrow> cons_token (TString s) (tokenize rest))
      else if c = 45 \<or> is_digit c then
        (case lex_number (c # cs) of
           None \<Rightarrow> None
         | Some (l, rest) \<Rightarrow> cons_token (TNumber l) (tokenize rest))
      else
        (case strip_prefix (js ''true'') (c # cs) of
           Some rest \<Rightarrow> cons_token TTrue (tokenize rest)
         | None \<Rightarrow>
             (case strip_prefix (js ''false'') (c # cs) of
                Some rest \<Rightarrow> cons_token TFalse (tokenize rest)
              | None \<Rightarrow>
                  (case strip_prefix (js ''null'') (c # cs) of
                     Some rest \<Rightarrow> cons_token TNull (tokenize rest)
                   | None \<Rightarrow> None))))"
  by pat_completeness auto
termination
proof (relation "measure length")
qed (auto dest: lex_string_length lex_number_length strip_prefix_length simp: js_def less_Suc_eq)


text \<open>
  Writing a property of an object under construction. An existing key keeps its place
  and takes the new value. A new key that is an array index (a canonical decimal below
  \<open>2^32 - 1\<close>) goes among the index keys in ascending order, which come first; any other
  new key goes last.
\<close>

definition array_index :: "jsstring \<Rightarrow> nat option" where
  "array_index k =
     (if k = [48] then Some 0
      else if k \<noteq> [] \<and> list_all is_digit k \<and> hd k \<noteq> 48
              \<and> foldl (\<lambda>a d. 10 * a + (d - 48)) 0 k < 4294967295
      then Some (foldl (\<lambda>a d. 10 * a + (d - 48)) 0 k)
      else None)"

fun insert_index :: "nat \<Rightarrow> jsstring \<times> 'v \<Rightarrow> (jsstring \<times> 'v) list \<Rightarrow> (jsstring \<times> 'v) list" where
  "insert_index i kv [] = [kv]"
| "insert_index i kv (p # ps) =
     (case array_index (fst p) of
        None \<Rightarrow> kv # p # ps
      | Some j \<Rightarrow> if j < i then p # insert_index i kv ps else kv # p # ps)"

definition set_prop :: "(jsstring \<times> 'v) list \<Rightarrow> jsstring \<Rightarrow> 'v \<Rightarrow> (jsstring \<times> 'v) list" where
  "set_prop ps k v =
     (case map_of ps k of
        Some old \<Rightarrow> AList.update k v ps
      | None \<Rightarrow>
          (case array_index k of
             None \<Rightarrow> ps @ [(k, v)]
           | Some i \<Rightarrow> insert_index i (k, v) ps))"

text \<open>
  The automaton. A frame is an open array with its elements so far, or an open object with
  its properties so far and the key that awaits its value. The mode says which tokens may
  come next.
\<close>

datatype 'n frame =
    FArr "'n jsval list"
  | FObj "(jsstring \<times> 'n jsval) list" "jsstring option"

datatype 'n mode =
    Value | ValueOrClose | KeyOrClose | Key | Colon | CommaOrClose | Done "'n jsval"

fun push_value :: "'n jsval \<Rightarrow> 'n frame list \<Rightarrow> ('n frame list \<times> 'n mode) option" where
  "push_value v [] = Some ([], Done v)"
| "push_value v (FArr es # st) = Some (FArr (es @ [v]) # st, CommaOrClose)"
| "push_value v (FObj ps (Some k) # st) = Some (FObj (set_prop ps k v) None # st, CommaOrClose)"
| "push_value v (FObj ps None # st) = None"

fun close_arr :: "'n frame list \<Rightarrow> ('n frame list \<times> 'n mode) option" where
  "close_arr (FArr es # st) = push_value (JArr es) st"
| "close_arr _ = None"

fun close_obj :: "'n frame list \<Rightarrow> ('n frame list \<times> 'n mode) option" where
  "close_obj (FObj ps None # st) = push_value (JObj ps) st"
| "close_obj _ = None"

fun set_key :: "jsstring \<Rightarrow> 'n frame list \<Rightarrow> ('n frame list \<times> 'n mode) option" where
  "set_key k (FObj ps None # st) = Some (FObj ps (Some k) # st, Colon)"
| "set_key k _ = None"

fun after_comma :: "'n frame list \<Rightarrow> ('n frame list \<times> 'n mode) option" where
  "after_comma (FArr es # st) = Some (FArr es # st, Value)"
| "after_comma (FObj ps None # st) = Some (FObj ps None # st, Key)"
| "after_comma _ = None"

fun value_token :: "'n number_ops \<Rightarrow> token \<Rightarrow> 'n frame list \<Rightarrow> ('n frame list \<times> 'n mode) option" where
  "value_token ops (TString s) st = push_value (JStr s) st"
| "value_token ops (TNumber l) st = push_value (JNum (num_of_literal ops l)) st"
| "value_token ops TTrue st = push_value (JBool True) st"
| "value_token ops TFalse st = push_value (JBool False) st"
| "value_token ops TNull st = push_value JNull st"
| "value_token ops TLBrack st = Some (FArr [] # st, ValueOrClose)"
| "value_token ops TLBrace st = Some (FObj [] None # st, KeyOrClose)"
| "value_token ops _ st = None"

fun step :: "'n number_ops \<Rightarrow> token \<Rightarrow> 'n frame list \<times> 'n mode \<Rightarrow> ('n frame list \<times> 'n mode) option" where
  "step ops t (st, Value) = value_token ops t st"
| "step ops t (st, ValueOrClose) = (if t = TRBrack then close_arr st else value_token ops t st)"
| "step ops t (st, KeyOrClose) =
     (case t of TString k \<Rightarrow> set_key k st | TRBrace \<Rightarrow> close_obj st | _ \<Rightarrow> None)"
| "step ops t (st, Key) = (case t of TString k \<Rightarrow> set_key k st | _ \<Rightarrow> None)"
| "step ops t (st, Colon) = (if t = TColon then Some (st, Value) else None)"
| "step ops t (st, CommaOrClose) =
     (case t of
        TComma \<Rightarrow> after_comma st
      | TRBrack \<Rightarrow> close_arr st
      | TRBrace \<Rightarrow> close_obj st
      | _ \<Rightarrow> None)"
| "step ops t (st, Done v) = None"

fun run_tokens :: "'n number_ops \<Rightarrow> token list \<Rightarrow> 'n frame list \<times> 'n mode \<Rightarrow> ('n frame list \<times> 'n mode) option" where
  "run_tokens ops [] s = Some s"
| "run_tokens ops (t # ts) s =
     (case step ops t s of None \<Rightarrow> None | Some s' \<Rightarrow> run_tokens ops ts s')"

definition JSON_parse :: "'n number_ops \<Rightarrow> jsstring \<Rightarrow> error + 'n jsval" where
  "JSON_parse ops text =
     (case tokenize text of
        None \<Rightarrow> Inl SyntaxError
      | Some ts \<Rightarrow>
          (case run_tokens ops ts ([], Value) of
             Some ([], Done v) \<Rightarrow> Inr v
           | _ \<Rightarrow> Inl SyntaxError))"

section \<open>\<open>req\<close> and its four callers\<close>

text \<open>
  Lines 28 to 34 of \<open>req\<close>: \<open>try { return JSON.parse(json) } catch (err) { return json }\<close>.
\<close>

definition decode :: "'n number_ops \<Rightarrow> jsstring \<Rightarrow> error + 'n jsval" where
  "decode ops json =
     (case JSON_parse ops json of
        Inr v \<Rightarrow> Inr v
      | Inl err \<Rightarrow> Inr (JStr json))"

text \<open>
  \<open>fetch(url, opts).then((r) => r.text())\<close> is the environment: from the address and the
  options it gives the text of the response body, or the promise is rejected (\<open>Inl\<close>).
  A rejection passes through \<open>req\<close> to the caller.
\<close>

type_synonym fetch_text = "jsstring \<Rightarrow> opts \<Rightarrow> error + jsstring"

definition req :: "'n number_ops \<Rightarrow> fetch_text \<Rightarrow> 'n req_args \<Rightarrow> error + 'n jsval" where
  "req ops fetch a =
     (case fetch (req_url a) (req_opts ops a) of
        Inl e \<Rightarrow> Inl e
      | Inr json \<Rightarrow> decode ops json)"

definition api_get :: "'n number_ops \<Rightarrow> fetch_text \<Rightarrow> jsstring \<Rightarrow> jsstring \<Rightarrow> error + 'n jsval" where
  "api_get ops fetch path token =
     req ops fetch \<lparr> arg_method = js ''GET'', arg_path = path, arg_data = JUndefined, arg_token = Some token \<rparr>"

definition api_del :: "'n number_ops \<Rightarrow> fetch_text \<Rightarrow> jsstring \<Rightarrow> jsstring \<Rightarrow> error + 'n jsval" where
  "api_del ops fetch path token =
     req ops fetch \<lparr> arg_method = js ''DELETE'', arg_path = path, arg_data = JUndefined, arg_token = Some token \<rparr>"

definition api_post :: "'n number_ops \<Rightarrow> fetch_text \<Rightarrow> jsstring \<Rightarrow> 'n jsval \<Rightarrow> jsstring option \<Rightarrow> error + 'n jsval" where
  "api_post ops fetch path data token =
     req ops fetch \<lparr> arg_method = js ''POST'', arg_path = path, arg_data = data, arg_token = token \<rparr>"

definition api_put :: "'n number_ops \<Rightarrow> fetch_text \<Rightarrow> jsstring \<Rightarrow> 'n jsval \<Rightarrow> jsstring \<Rightarrow> error + 'n jsval" where
  "api_put ops fetch path data token =
     req ops fetch \<lparr> arg_method = js ''PUT'', arg_path = path, arg_data = data, arg_token = Some token \<rparr>"

section \<open>The login route (\<open>src/searu-dash/src/routes/users/login.ts\<close>)\<close>

text \<open>
  \<open>ToString\<close>, as the template literal applies it. An array prints its elements joined by
  commas, \<open>undefined\<close> and \<open>null\<close> elements as nothing. A plain object prints as
  \<open>[object Object]\<close> through \<open>Object.prototype.toString\<close>; when it has an own property
  \<open>toString\<close> (a JSON value, so not callable) no conversion exists and a \<open>TypeError\<close> is
  thrown.
\<close>

fun collect :: "(error + 'a) list \<Rightarrow> error + 'a list" where
  "collect [] = Inr []"
| "collect (r # rs) =
     (case r of
        Inl e \<Rightarrow> Inl e
      | Inr x \<Rightarrow> (case collect rs of Inl e \<Rightarrow> Inl e | Inr xs \<Rightarrow> Inr (x # xs)))"

fun to_string :: "'n number_ops \<Rightarrow> 'n jsval \<Rightarrow> error + jsstring" where
  "to_string ops JUndefined = Inr (js ''undefined'')"
| "to_string ops JNull = Inr (js ''null'')"
| "to_string ops (JBool b) = Inr (if b then js ''true'' else js ''false'')"
| "to_string ops (JNum n) = Inr (num_to_string ops n)"
| "to_string ops (JStr s) = Inr s"
| "to_string ops (JArr xs) =
     (case collect (map (\<lambda>x. case x of
                                 JUndefined \<Rightarrow> Inr []
                               | JNull \<Rightarrow> Inr []
                               | _ \<Rightarrow> to_string ops x) xs) of
        Inl e \<Rightarrow> Inl e
      | Inr ss \<Rightarrow> Inr (join [44] ss))"
| "to_string ops (JObj ps) =
     (case map_of ps (js ''toString'') of
        Some v \<Rightarrow> Inl TypeError
      | None \<Rightarrow> Inr (js ''[object Object]''))"

text \<open>
  \<open>body['token']\<close>. Reading a property of \<open>undefined\<close> or \<open>null\<close> throws; an object gives
  its own property, and \<open>undefined\<close> when it has none of that name; no other value and no
  built-in prototype has a property \<open>token\<close>.
\<close>

fun get_token :: "'n jsval \<Rightarrow> error + 'n jsval" where
  "get_token JUndefined = Inl TypeError"
| "get_token JNull = Inl TypeError"
| "get_token (JObj ps) = Inr (case map_of ps (js ''token'') of None \<Rightarrow> JUndefined | Some v \<Rightarrow> v)"
| "get_token _ = Inr JUndefined"

record login_body =
  username :: jsstring
  password :: jsstring

record 'n login_response =
  resp_headers :: "(string \<times> jsstring) list"
  resp_body :: "'n jsval"

definition login_data :: "login_body \<Rightarrow> 'n jsval" where
  "login_data b = JObj [(js ''username'', JStr (username b)), (js ''password'', JStr (password b))]"

definition login_post :: "'n number_ops \<Rightarrow> fetch_text \<Rightarrow> login_body \<Rightarrow> error + 'n login_response" where
  "login_post ops fetch request_body =
     (case api_post ops fetch (js ''users/login'') (login_data request_body) None of
        Inl e \<Rightarrow> Inl e
      | Inr b \<Rightarrow>
          (case get_token b of
             Inl e \<Rightarrow> Inl e
           | Inr tok \<Rightarrow>
               (case to_string ops tok of
                  Inl e \<Rightarrow> Inl e
                | Inr t \<Rightarrow>
                    Inr \<lparr> resp_headers = [(''set-cookie'', js ''jwt='' @ t @ js ''; Path=/; HttpOnly'')],
                          resp_body = b \<rparr>)))"

section \<open>\<open>decodeURIComponent\<close>\<close>

text \<open>
  Each \<open>%XX\<close> is one octet. An octet below \<open>128\<close> is a character; a larger one opens a
  UTF-8 sequence whose other octets follow as \<open>%XX\<close> too. A \<open>%\<close> without two hexadecimal
  digits, or octets that are not the UTF-8 encoding of a code point, throw \<open>URIError\<close>.
\<close>

datatype uri_item = Lit nat | Octet nat

definition cons_item :: "uri_item \<Rightarrow> uri_item list option \<Rightarrow> uri_item list option" where
  "cons_item i r = (case r of None \<Rightarrow> None | Some is \<Rightarrow> Some (i # is))"

fun percent_items :: "jsstring \<Rightarrow> uri_item list option" where
  "percent_items [] = Some []"
| "percent_items (c # cs) =
     (if c = 37 then
        (case cs of
           h1 # h2 # rest \<Rightarrow>
             (case (hex_value h1, hex_value h2) of
                (Some x, Some y) \<Rightarrow> cons_item (Octet (16 * x + y)) (percent_items rest)
              | _ \<Rightarrow> None)
         | _ \<Rightarrow> None)
      else cons_item (Lit c) (percent_items cs))"

definition utf16_units :: "nat \<Rightarrow> jsstring" where
  "utf16_units cp =
     (if cp < 65536 then [cp]
      else [55296 + (cp - 65536) div 1024, 56320 + (cp - 65536) mod 1024])"

text \<open>The number of octets that a leading octet announces.\<close>

definition sequence_length :: "nat \<Rightarrow> nat option" where
  "sequence_length b =
     (if 192 \<le> b \<and> b < 224 then Some 2
      else if 224 \<le> b \<and> b < 240 then Some 3
      else if 240 \<le> b \<and> b < 248 then Some 4
      else None)"

fun continuation_octets :: "uri_item list \<Rightarrow> nat list option" where
  "continuation_octets [] = Some []"
| "continuation_octets (Octet b # is) =
     (if 128 \<le> b \<and> b < 192
      then (case continuation_octets is of None \<Rightarrow> None | Some bs \<Rightarrow> Some (b mod 64 # bs))
      else None)"
| "continuation_octets (Lit c # is) = None"

definition code_point_of :: "nat \<Rightarrow> nat \<Rightarrow> nat list \<Rightarrow> nat option" where
  "code_point_of n b bs =
     (let v = foldl (\<lambda>a x. 64 * a + x) (b mod 2 ^ (7 - n)) bs
      in if n = 2 \<and> 128 \<le> v then Some v
         else if n = 3 \<and> 2048 \<le> v \<and> \<not> (55296 \<le> v \<and> v \<le> 57343) then Some v
         else if n = 4 \<and> 65536 \<le> v \<and> v \<le> 1114111 then Some v
         else None)"

function decode_items :: "uri_item list \<Rightarrow> error + jsstring" where
  "decode_items [] = Inr []"
| "decode_items (Lit c # is) =
     (case decode_items is of Inl e \<Rightarrow> Inl e | Inr s \<Rightarrow> Inr (c # s))"
| "decode_items (Octet b # is) =
     (if b < 128 then (case decode_items is of Inl e \<Rightarrow> Inl e | Inr s \<Rightarrow> Inr (b # s))
      else
        (case sequence_length b of
           None \<Rightarrow> Inl URIError
         | Some n \<Rightarrow>
             if length is < n - 1 then Inl URIError
             else
               (case continuation_octets (take (n - 1) is) of
                  None \<Rightarrow> Inl URIError
                | Some bs \<Rightarrow>
                    (case code_point_of n b bs of
                       None \<Rightarrow> Inl URIError
                     | Some v \<Rightarrow>
                         (case decode_items (drop (n - 1) is) of
                            Inl e \<Rightarrow> Inl e
                          | Inr s \<Rightarrow> Inr (utf16_units v @ s))))))"
  by pat_completeness auto
termination
  by (relation "measure length") auto

definition decodeURIComponent :: "jsstring \<Rightarrow> error + jsstring" where
  "decodeURIComponent s =
     (case percent_items s of
        None \<Rightarrow> Inl URIError
      | Some is \<Rightarrow> decode_items is)"

section \<open>\<open>cookie.parse\<close>\<close>

text \<open>
  The function \<open>parse\<close> of the package \<open>cookie\<close>: the header is split at \<open>/; */\<close>; a pair
  without \<open>=\<close> is skipped; name and value are trimmed; a value that starts with a double
  quote loses its first and last character; the value goes through \<open>tryDecode\<close>; a name is
  assigned once, and only when \<open>obj[key]\<close> is \<open>undefined\<close>, which it is not for the names
  that \<open>Object.prototype\<close> defines.
\<close>

function split_pairs :: "jsstring \<Rightarrow> jsstring list" where
  "split_pairs s =
     (case dropWhile (\<lambda>c. c \<noteq> 59) s of
        [] \<Rightarrow> [s]
      | semi # rest \<Rightarrow> takeWhile (\<lambda>c. c \<noteq> 59) s # split_pairs (dropWhile (\<lambda>c. c = 32) rest))"
  by pat_completeness auto
termination
proof (relation "measure length")
  fix s :: jsstring and semi rest
  assume a: "dropWhile (\<lambda>c. c \<noteq> 59) s = semi # rest"
  have "length (dropWhile (\<lambda>c. c = 32) rest) \<le> length rest"
    by (rule length_dropWhile_le)
  moreover have "length (semi # rest) \<le> length s"
    using length_dropWhile_le [of "\<lambda>c. c \<noteq> 59" s] a by simp
  ultimately show "(dropWhile (\<lambda>c. c = 32) rest, s) \<in> measure length"
    by simp
qed simp

definition index_of :: "nat \<Rightarrow> jsstring \<Rightarrow> nat option" where
  "index_of c s = (if c \<in> set s then Some (length (takeWhile (\<lambda>x. x \<noteq> c) s)) else None)"

definition is_space :: "nat \<Rightarrow> bool" where
  "is_space c =
     (c \<in> set [9, 10, 11, 12, 13, 32, 160, 5760, 8232, 8233, 8239, 8287, 12288, 65279]
      \<or> (8192 \<le> c \<and> c \<le> 8202))"

definition trim :: "jsstring \<Rightarrow> jsstring" where
  "trim s = rev (dropWhile is_space (rev (dropWhile is_space s)))"

definition unquote :: "jsstring \<Rightarrow> jsstring" where
  "unquote val = (case val of [] \<Rightarrow> val | c # cs \<Rightarrow> if c = 34 then butlast cs else val)"

definition object_prototype_names :: "jsstring list" where
  "object_prototype_names =
     map js [''constructor'', ''__defineGetter__'', ''__defineSetter__'', ''hasOwnProperty'',
             ''__lookupGetter__'', ''__lookupSetter__'', ''isPrototypeOf'',
             ''propertyIsEnumerable'', ''toString'', ''valueOf'', ''__proto__'', ''toLocaleString'']"

definition tryDecode :: "jsstring \<Rightarrow> (jsstring \<Rightarrow> error + jsstring) \<Rightarrow> error + jsstring" where
  "tryDecode str dec = (case dec str of Inr v \<Rightarrow> Inr v | Inl e \<Rightarrow> Inr str)"

fun parse_pairs :: "jsstring list \<Rightarrow> (jsstring \<times> jsstring) list \<Rightarrow> error + (jsstring \<times> jsstring) list" where
  "parse_pairs [] obj = Inr obj"
| "parse_pairs (pair # pairs) obj =
     (case index_of 61 pair of
        None \<Rightarrow> parse_pairs pairs obj
      | Some eq_idx \<Rightarrow>
          (let key = trim (take eq_idx pair);
               val = unquote (trim (drop (Suc eq_idx) pair))
           in if map_of obj key = None \<and> key \<notin> set object_prototype_names
              then (case tryDecode val decodeURIComponent of
                      Inl e \<Rightarrow> Inl e
                    | Inr v \<Rightarrow> parse_pairs pairs (set_prop obj key v))
              else parse_pairs pairs obj))"

definition cookie_parse :: "jsstring \<Rightarrow> error + (jsstring \<times> jsstring) list" where
  "cookie_parse str = parse_pairs (split_pairs str) []"

section \<open>\<open>Buffer.from(s, 'base64').toString('utf-8')\<close>\<close>

text \<open>
  Node's Base64 decoder does not fail. It reads a code unit through its low byte, takes
  both the standard and the URL-safe alphabet, skips every other character and stops at
  the first \<open>=\<close>. Four sextets give three bytes; a last group of two or three sextets
  gives one or two bytes, and a single left-over sextet gives none.
\<close>

definition unbase64 :: "nat \<Rightarrow> nat option" where
  "unbase64 c =
     (let x = c mod 256
      in if 65 \<le> x \<and> x \<le> 90 then Some (x - 65)
         else if 97 \<le> x \<and> x \<le> 122 then Some (x - 71)
         else if 48 \<le> x \<and> x \<le> 57 then Some (x + 4)
         else if x = 43 \<or> x = 45 then Some 62
         else if x = 47 \<or> x = 95 then Some 63
         else None)"

fun sextets :: "jsstring \<Rightarrow> nat list" where
  "sextets [] = []"
| "sextets (c # cs) =
     (case unbase64 c of
        Some v \<Rightarrow> v # sextets cs
      | None \<Rightarrow> if c mod 256 = 61 then [] else sextets cs)"

fun sextet_bytes :: "nat list \<Rightarrow> nat list" where
  "sextet_bytes (a # b # c # d # rest) =
     (4 * a + b div 16) # (16 * (b mod 16) + c div 4) # (64 * (c mod 4) + d) # sextet_bytes rest"
| "sextet_bytes [a, b, c] = [4 * a + b div 16, 16 * (b mod 16) + c div 4]"
| "sextet_bytes [a, b] = [4 * a + b div 16]"
| "sextet_bytes _ = []"

definition base64_decode :: "jsstring \<Rightarrow> nat list" where
  "base64_decode s = sextet_bytes (sextets s)"

text \<open>
  \<open>toString('utf-8')\<close> does not fail either: each maximal ill-formed part of the byte
  sequence becomes one \<open>U+FFFD\<close>. The state is \<open>Start\<close>, or \<open>Pending cp needed lower upper\<close>
  inside a sequence: the bits read so far, the number of bytes still to come, and the
  range allowed for the next byte.
\<close>

datatype utf8_state = Start | Pending nat nat nat nat

definition utf8_lead :: "nat \<Rightarrow> nat list \<times> utf8_state" where
  "utf8_lead b =
     (if b < 128 then ([b], Start)
      else if 194 \<le> b \<and> b \<le> 223 then ([], Pending (b mod 32) 1 128 191)
      else if 224 \<le> b \<and> b \<le> 239 then
        ([], Pending (b mod 16) 2 (if b = 224 then 160 else 128) (if b = 237 then 159 else 191))
      else if 240 \<le> b \<and> b \<le> 244 then
        ([], Pending (b mod 8) 3 (if b = 240 then 144 else 128) (if b = 244 then 143 else 191))
      else ([65533], Start))"

fun utf8_run :: "utf8_state \<Rightarrow> nat list \<Rightarrow> nat list" where
  "utf8_run Start [] = []"
| "utf8_run (Pending cp needed lower upper) [] = [65533]"
| "utf8_run Start (b # bs) = fst (utf8_lead b) @ utf8_run (snd (utf8_lead b)) bs"
| "utf8_run (Pending cp needed lower upper) (b # bs) =
     (if lower \<le> b \<and> b \<le> upper then
        (if needed = 1 then (64 * cp + b mod 64) # utf8_run Start bs
         else utf8_run (Pending (64 * cp + b mod 64) (needed - 1) 128 191) bs)
      else 65533 # fst (utf8_lead b) @ utf8_run (snd (utf8_lead b)) bs)"

definition utf8_to_string :: "nat list \<Rightarrow> jsstring" where
  "utf8_to_string bytes = concat (map utf16_units (utf8_run Start bytes))"

section \<open>The session hook (\<open>getSession\<close>)\<close>

record session =
  jwt :: "jsstring option"

text \<open>
  \<open>headers.cookie || ''\<close>, then \<open>cookies.jwt && Buffer.from(cookies.jwt, 'base64')\<close>
  \<open>.toString('utf-8')\<close>: an absent cookie leaves \<open>jwt\<close> \<open>undefined\<close> (\<open>None\<close>), an empty one
  leaves the empty string, any other value is decoded.
\<close>

definition getSession :: "(string \<times> jsstring) list \<Rightarrow> error + session" where
  "getSession hdrs =
     (case cookie_parse (case map_of hdrs ''cookie'' of None \<Rightarrow> [] | Some c \<Rightarrow> c) of
        Inl e \<Rightarrow> Inl e
      | Inr cookies \<Rightarrow>
          Inr \<lparr> jwt = (case map_of cookies (js ''jwt'') of
                         None \<Rightarrow> None
                       | Some v \<Rightarrow> if v = [] then Some [] else Some (utf8_to_string (base64_decode v))) \<rparr>)"

section \<open>Base64 as the specification words it\<close>

text \<open>
  The encoding of RFC 4648 with the standard alphabet and padding, on a list of bytes.
  It is not part of the program: the specification speaks of a cookie that holds
  \<open>Base64(token)\<close>.
\<close>

definition base64_char :: "nat \<Rightarrow> nat" where
  "base64_char v =
     (if v < 26 then 65 + v else if v < 52 then 71 + v else if v < 62 then v - 4
      else if v = 62 then 43 else 47)"

fun base64_encode :: "nat list \<Rightarrow> jsstring" where
  "base64_encode (x # y # z # rest) =
     base64_char (x div 4) # base64_char (16 * (x mod 4) + y div 16)
       # base64_char (4 * (y mod 16) + z div 64) # base64_char (z mod 64) # base64_encode rest"
| "base64_encode [x, y] =
     [base64_char (x div 4), base64_char (16 * (x mod 4) + y div 16), base64_char (4 * (y mod 16)), 61]"
| "base64_encode [x] = [base64_char (x div 4), base64_char (16 * (x mod 4)), 61, 61]"
| "base64_encode [] = []"

definition printable_ascii :: "jsstring \<Rightarrow> bool" where
  "printable_ascii t = list_all (\<lambda>c. 32 \<le> c \<and> c \<le> 126) t"

section \<open>Examples of the environment\<close>

text \<open>A remote that answers every call with the same text.\<close>

definition fetch_returning :: "jsstring \<Rightarrow> fetch_text" where
  "fetch_returning json url opts = Inr json"

text \<open>The credentials of the end-to-end scenarios.\<close>

definition alice :: login_body where
  "alice = \<lparr> username = js ''alice'', password = js ''secret'' \<rparr>"

text \<open>The characters that a Base64 text is made of: the standard alphabet and the padding.\<close>

definition base64_text :: "nat \<Rightarrow> bool" where
  "base64_text c =
     ((65 \<le> c \<and> c \<le> 90) \<or> (97 \<le> c \<and> c \<le> 122) \<or> (48 \<le> c \<and> c \<le> 57)
      \<or> c = 43 \<or> c = 47 \<or> c = 61)"

section \<open>Properties of the request client\<close>

lemma headers_set_header:
  "map_of (headers (set_header k v opts)) k' = (if k' = k then Some v else map_of (headers opts) k')"
  by (simp add: set_header_def update_conv')

lemma body_set_header: "body (set_header k v opts) = body opts"
  by (simp add: set_header_def)

lemma http_method_set_header: "http_method (set_header k v opts) = http_method opts"
  by (simp add: set_header_def)

lemma parse_token_object:
  "JSON_parse ops (js ''{\"token\":\"abc123\"}'') = Inr (JObj [(js ''token'', JStr (js ''abc123''))])"
  by (simp add: JSON_parse_def js_def is_ws_def is_digit_def cons_token_def cons_unit_def
                strip_prefix_def set_prop_def array_index_def)

lemma parse_internal_server_error:
  "JSON_parse ops (js ''Internal Server Error'') = Inl SyntaxError"
  by (simp add: JSON_parse_def js_def is_ws_def is_digit_def cons_token_def cons_unit_def
                strip_prefix_def)

text \<open>
  C1. For every response, \<open>req\<close> takes the whole body as text and tries to parse it as
  JSON: when the text parses, \<open>req\<close> returns the parsed value; when it does not, \<open>req\<close>
  returns the text itself; a parse failure is never thrown to the caller.
\<close>

theorem decode_never_throws:
  assumes "fetch (req_url a) (req_opts ops a) = Inr json"
  shows "(\<forall>v. JSON_parse ops json = Inr v \<longrightarrow> req ops fetch a = Inr v)
         \<and> (\<forall>e. JSON_parse ops json = Inl e \<longrightarrow> req ops fetch a = Inr (JStr json))
         \<and> (\<exists>v. req ops fetch a = Inr v)"
  using assms by (cases "JSON_parse ops json") (simp_all add: req_def decode_def)

theorem decode_never_throws_witness:
  "fetch_returning (js ''Internal Server Error'')
      (req_url \<lparr> arg_method = js ''GET'', arg_path = js ''orders'', arg_data = (JUndefined :: jsstring jsval), arg_token = Some (js ''tok'') \<rparr>)
      (req_opts literal_numbers \<lparr> arg_method = js ''GET'', arg_path = js ''orders'', arg_data = JUndefined, arg_token = Some (js ''tok'') \<rparr>)
     = Inr (js ''Internal Server Error'')
   \<and> req literal_numbers (fetch_returning (js ''Internal Server Error''))
         \<lparr> arg_method = js ''GET'', arg_path = js ''orders'', arg_data = JUndefined, arg_token = Some (js ''tok'') \<rparr>
       = Inr (JStr (js ''Internal Server Error''))"
proof -
  have f: "fetch_returning (js ''Internal Server Error'')
      (req_url \<lparr> arg_method = js ''GET'', arg_path = js ''orders'', arg_data = (JUndefined :: jsstring jsval), arg_token = Some (js ''tok'') \<rparr>)
      (req_opts literal_numbers \<lparr> arg_method = js ''GET'', arg_path = js ''orders'', arg_data = JUndefined, arg_token = Some (js ''tok'') \<rparr>)
     = Inr (js ''Internal Server Error'')"
    by (simp add: fetch_returning_def)
  show ?thesis
    using f parse_internal_server_error [of literal_numbers]
          decode_never_throws
            [where fetch = "fetch_returning (js ''Internal Server Error'')" and ops = literal_numbers
               and a = "\<lparr> arg_method = js ''GET'', arg_path = js ''orders'', arg_data = JUndefined, arg_token = Some (js ''tok'') \<rparr>"
               and json = "js ''Internal Server Error''"]
    by simp
qed

text \<open>
  C5, as the code has it. \<open>if (data)\<close> tests the truthiness of \<open>data\<close>. For every truthy
  value passed as \<open>data\<close> to \<open>req\<close>, and so to \<open>post\<close> and \<open>put\<close>, the outbound body is
  \<open>JSON.stringify(data)\<close> and the outbound \<open>Content-Type\<close> is \<open>application/json\<close>. A falsy
  value is treated exactly as absent data: the options are those of a call without
  \<open>data\<close>, the body stays the empty string and no \<open>Content-Type\<close> is set. The falsy values
  are \<open>undefined\<close>, \<open>null\<close>, \<open>false\<close>, the empty string and the falsy numbers (\<open>0\<close>, \<open>NaN\<close>).
\<close>

theorem truthy_data_json_body:
  "(truthy ops d \<longrightarrow>
      body (req_opts ops \<lparr> arg_method = m, arg_path = p, arg_data = d, arg_token = tok \<rparr>)
        = JSON_stringify ops d
      \<and> JSON_stringify ops d \<noteq> None
      \<and> map_of (headers (req_opts ops \<lparr> arg_method = m, arg_path = p, arg_data = d, arg_token = tok \<rparr>))
                ''Content-Type'' = Some (js ''application/json'')
      \<and> api_post ops fetch p d tok =
          (case fetch (base @ js ''/'' @ p)
                      (req_opts ops \<lparr> arg_method = js ''POST'', arg_path = p, arg_data = d, arg_token = tok \<rparr>) of
             Inl e \<Rightarrow> Inl e
           | Inr json \<Rightarrow> decode ops json)
      \<and> api_put ops fetch p d t =
          (case fetch (base @ js ''/'' @ p)
                      (req_opts ops \<lparr> arg_method = js ''PUT'', arg_path = p, arg_data = d, arg_token = Some t \<rparr>) of
             Inl e \<Rightarrow> Inl e
           | Inr json \<Rightarrow> decode ops json))
   \<and> (\<not> truthy ops d \<longrightarrow>
      req_opts ops \<lparr> arg_method = m, arg_path = p, arg_data = d, arg_token = tok \<rparr>
        = req_opts ops \<lparr> arg_method = m, arg_path = p, arg_data = JUndefined, arg_token = tok \<rparr>
      \<and> body (req_opts ops \<lparr> arg_method = m, arg_path = p, arg_data = d, arg_token = tok \<rparr>) = Some []
      \<and> map_of (headers (req_opts ops \<lparr> arg_method = m, arg_path = p, arg_data = d, arg_token = tok \<rparr>))
                ''Content-Type'' = None
      \<and> api_post ops fetch p d tok = api_post ops fetch p JUndefined tok
      \<and> api_put ops fetch p d t = api_put ops fetch p JUndefined t)
   \<and> (\<not> truthy ops d \<longleftrightarrow>
        d = JUndefined \<or> d = JNull \<or> d = JBool False \<or> d = JStr []
        \<or> (\<exists>n. d = JNum n \<and> num_is_falsy ops n))"
proof -
  have yes: "JSON_stringify ops d \<noteq> None" if "truthy ops d"
    using that by (cases d) simp_all
  have yes_body: "body (req_opts ops \<lparr> arg_method = m', arg_path = p, arg_data = d, arg_token = tok' \<rparr>)
                   = JSON_stringify ops d" if "truthy ops d" for m' tok'
    using that by (simp add: req_opts_def Let_def body_set_header split: option.splits)
  have yes_type: "map_of (headers (req_opts ops \<lparr> arg_method = m', arg_path = p, arg_data = d, arg_token = tok' \<rparr>))
                   ''Content-Type'' = Some (js ''application/json'')" if "truthy ops d" for m' tok'
    using that by (simp add: req_opts_def Let_def headers_set_header split: option.splits)
  have no: "req_opts ops \<lparr> arg_method = m', arg_path = p, arg_data = d, arg_token = tok' \<rparr>
              = req_opts ops \<lparr> arg_method = m', arg_path = p, arg_data = JUndefined, arg_token = tok' \<rparr>"
    if "\<not> truthy ops d" for m' tok'
    using that by (simp add: req_opts_def Let_def)
  have no_body: "body (req_opts ops \<lparr> arg_method = m, arg_path = p, arg_data = JUndefined, arg_token = tok \<rparr>) = Some []"
    by (simp add: req_opts_def Let_def body_set_header split: option.splits)
  have no_type: "map_of (headers (req_opts ops \<lparr> arg_method = m, arg_path = p, arg_data = JUndefined, arg_token = tok \<rparr>))
                   ''Content-Type'' = None"
    by (simp add: req_opts_def Let_def headers_set_header split: option.splits)
  have calls: "api_post ops fetch p d tok = api_post ops fetch p JUndefined tok"
              "api_put ops fetch p d t = api_put ops fetch p JUndefined t"
    if "\<not> truthy ops d"
    using no [OF that] by (simp_all add: api_post_def api_put_def req_def req_url_def)
  have falsy: "\<not> truthy ops d \<longleftrightarrow>
        d = JUndefined \<or> d = JNull \<or> d = JBool False \<or> d = JStr []
        \<or> (\<exists>n. d = JNum n \<and> num_is_falsy ops n)"
    by (cases d) simp_all
  have first: "truthy ops d \<longrightarrow>
      body (req_opts ops \<lparr> arg_method = m, arg_path = p, arg_data = d, arg_token = tok \<rparr>)
        = JSON_stringify ops d
      \<and> JSON_stringify ops d \<noteq> None
      \<and> map_of (headers (req_opts ops \<lparr> arg_method = m, arg_path = p, arg_data = d, arg_token = tok \<rparr>))
                ''Content-Type'' = Some (js ''application/json'')
      \<and> api_post ops fetch p d tok =
          (case fetch (base @ js ''/'' @ p)
                      (req_opts ops \<lparr> arg_method = js ''POST'', arg_path = p, arg_data = d, arg_token = tok \<rparr>) of
             Inl e \<Rightarrow> Inl e
           | Inr json \<Rightarrow> decode ops json)
      \<and> api_put ops fetch p d t =
          (case fetch (base @ js ''/'' @ p)
                      (req_opts ops \<lparr> arg_method = js ''PUT'', arg_path = p, arg_data = d, arg_token = Some t \<rparr>) of
             Inl e \<Rightarrow> Inl e
           | Inr json \<Rightarrow> decode ops json)"
    using yes yes_body yes_type by (simp add: api_post_def api_put_def req_def req_url_def)
  have second: "\<not> truthy ops d \<longrightarrow>
      req_opts ops \<lparr> arg_method = m, arg_path = p, arg_data = d, arg_token = tok \<rparr>
        = req_opts ops \<lparr> arg_method = m, arg_path = p, arg_data = JUndefined, arg_token = tok \<rparr>
      \<and> body (req_opts ops \<lparr> arg_method = m, arg_path = p, arg_data = d, arg_token = tok \<rparr>) = Some []
      \<and> map_of (headers (req_opts ops \<lparr> arg_method = m, arg_path = p, arg_data = d, arg_token = tok \<rparr>))
                ''Content-Type'' = None
      \<and> api_post ops fetch p d tok = api_post ops fetch p JUndefined tok
      \<and> api_put ops fetch p d t = api_put ops fetch p JUndefined t"
    using no [of m tok] no_body no_type calls by simp
  show ?thesis
    using first second falsy by blast
qed

theorem truthy_data_json_body_witness:
  "truthy literal_numbers (login_data alice)
   \<and> body (req_opts literal_numbers
             \<lparr> arg_method = js ''POST'', arg_path = js ''users/login'',
               arg_data = login_data alice, arg_token = None \<rparr>)
       = Some (js ''{\"username\":\"alice\",\"password\":\"secret\"}'')
   \<and> map_of (headers (req_opts literal_numbers
                \<lparr> arg_method = js ''POST'', arg_path = js ''users/login'',
                  arg_data = login_data alice, arg_token = None \<rparr>))
             ''Content-Type'' = Some (js ''application/json'')
   \<and> \<not> truthy literal_numbers (JStr [])
   \<and> req_opts literal_numbers
         \<lparr> arg_method = js ''PUT'', arg_path = js ''notes/1'', arg_data = JStr [], arg_token = Some (js ''tok'') \<rparr>
       = req_opts literal_numbers
         \<lparr> arg_method = js ''PUT'', arg_path = js ''notes/1'', arg_data = JUndefined, arg_token = Some (js ''tok'') \<rparr>
   \<and> body (req_opts literal_numbers
         \<lparr> arg_method = js ''PUT'', arg_path = js ''notes/1'', arg_data = JStr [], arg_token = Some (js ''tok'') \<rparr>)
       = Some []
   \<and> map_of (headers (req_opts literal_numbers
         \<lparr> arg_method = js ''PUT'', arg_path = js ''notes/1'', arg_data = JStr [], arg_token = Some (js ''tok'') \<rparr>))
         ''Content-Type'' = None"
proof -
  have t: "truthy literal_numbers (login_data alice)"
    by (simp add: login_data_def)
  have s: "JSON_stringify literal_numbers (login_data alice)
             = Some (js ''{\"username\":\"alice\",\"password\":\"secret\"}'')"
    by (simp add: login_data_def alice_def js_def quote_json_string_def quote_unit_def
                  is_lead_surrogate_def is_trail_surrogate_def)
  have e: "\<not> truthy literal_numbers (JStr [])"
    by simp
  have a: "body (req_opts literal_numbers
             \<lparr> arg_method = js ''POST'', arg_path = js ''users/login'',
               arg_data = login_data alice, arg_token = None \<rparr>)
             = Some (js ''{\"username\":\"alice\",\"password\":\"secret\"}'')
           \<and> map_of (headers (req_opts literal_numbers
                \<lparr> arg_method = js ''POST'', arg_path = js ''users/login'',
                  arg_data = login_data alice, arg_token = None \<rparr>))
             ''Content-Type'' = Some (js ''application/json'')"
    using t s
          truthy_data_json_body
            [where ops = literal_numbers and d = "login_data alice" and m = "js ''POST''"
               and p = "js ''users/login''" and tok = None
               and fetch = "fetch_returning []" and t = "[]"]
    by simp
  have b: "req_opts literal_numbers
         \<lparr> arg_method = js ''PUT'', arg_path = js ''notes/1'', arg_data = JStr [], arg_token = Some (js ''tok'') \<rparr>
       = req_opts literal_numbers
         \<lparr> arg_method = js ''PUT'', arg_path = js ''notes/1'', arg_data = JUndefined, arg_token = Some (js ''tok'') \<rparr>
       \<and> body (req_opts literal_numbers
         \<lparr> arg_method = js ''PUT'', arg_path = js ''notes/1'', arg_data = JStr [], arg_token = Some (js ''tok'') \<rparr>)
       = Some []
       \<and> map_of (headers (req_opts literal_numbers
         \<lparr> arg_method = js ''PUT'', arg_path = js ''notes/1'', arg_data = JStr [], arg_token = Some (js ''tok'') \<rparr>))
         ''Content-Type'' = None"
    using e
          truthy_data_json_body
            [where ops = literal_numbers and d = "JStr []" and m = "js ''PUT''"
               and p = "js ''notes/1''" and tok = "Some (js ''tok'')"
               and fetch = "fetch_returning []" and t = "[]"]
    by blast
  show ?thesis
    using t e a b by blast
qed

text \<open>
  C5 as stated fails for the JSON value \<open>false\<close>, which is falsy: the body stays the empty
  string and no \<open>Content-Type\<close> is set.
\<close>

theorem falsy_data_counterexample:
  "\<not> (body (req_opts literal_numbers
              \<lparr> arg_method = js ''POST'', arg_path = js ''flags'', arg_data = JBool False, arg_token = None \<rparr>)
          = JSON_stringify literal_numbers (JBool False)
        \<and> map_of (headers (req_opts literal_numbers
                     \<lparr> arg_method = js ''POST'', arg_path = js ''flags'', arg_data = JBool False, arg_token = None \<rparr>))
                  ''Content-Type'' = Some (js ''application/json''))"
  by (simp add: req_opts_def)

text \<open>
  C6, as the code has it. \<open>if (token)\<close> tests the truthiness of \<open>token\<close>: for every
  non-empty token \<open>t\<close> the outbound \<open>Authorization\<close> header is exactly \<open>Token t\<close>; for the
  empty string no \<open>Authorization\<close> header is attached.
\<close>

theorem nonempty_token_authorization:
  assumes "arg_token a = Some t"
  shows "(t \<noteq> [] \<longrightarrow> map_of (headers (req_opts ops a)) ''Authorization'' = Some (js ''Token '' @ t))
         \<and> (t = [] \<longrightarrow> map_of (headers (req_opts ops a)) ''Authorization'' = None)"
  using assms by (simp add: req_opts_def Let_def headers_set_header)

theorem nonempty_token_authorization_witness:
  "arg_token \<lparr> arg_method = js ''GET'', arg_path = js ''orders'', arg_data = (JUndefined :: jsstring jsval), arg_token = Some (js ''tok'') \<rparr> = Some (js ''tok'')
   \<and> js ''tok'' \<noteq> []
   \<and> map_of (headers (req_opts literal_numbers
                \<lparr> arg_method = js ''GET'', arg_path = js ''orders'', arg_data = JUndefined, arg_token = Some (js ''tok'') \<rparr>))
             ''Authorization''
       = Some (js ''Token tok'')"
  using nonempty_token_authorization
          [of "\<lparr> arg_method = js ''GET'', arg_path = js ''orders'', arg_data = (JUndefined :: jsstring jsval), arg_token = Some (js ''tok'') \<rparr>"
              "js ''tok''" literal_numbers]
  by (simp add: js_def)

text \<open>
  C6 as stated fails for the empty string, which is a string and falsy: the options carry
  no \<open>Authorization\<close> header at all.
\<close>

theorem empty_token_counterexample:
  "map_of (headers (req_opts literal_numbers
             \<lparr> arg_method = js ''GET'', arg_path = js ''orders'', arg_data = JUndefined, arg_token = Some [] \<rparr>))
          ''Authorization''
   \<noteq> Some (js ''Token '' @ [])"
  by (simp add: req_opts_def)

text \<open>
  Line 14 of \<open>req\<close>: with \<open>data\<close> and \<open>token\<close> absent the options stay as they are created,
  the body being the empty string.
\<close>

lemma no_data_no_token_options:
  assumes "arg_data a = JUndefined" and "arg_token a = None"
  shows "req_opts ops a = \<lparr> http_method = arg_method a, headers = [], body = Some [] \<rparr>"
  using assms by (simp add: req_opts_def)

text \<open>
  C7 says that, for every path, \<open>req\<close> without \<open>data\<close> and \<open>token\<close> issues a call with no
  body and with neither a \<open>Content-Type\<close> nor an \<open>Authorization\<close> header. The options of
  such a call do have an empty headers object, but \<open>req\<close> creates them with \<open>body: ''\<close> and
  never removes it: \<open>post('users/logout', undefined)\<close> hands \<open>fetch\<close> a string body, which
  is not an absent one.
\<close>

theorem bare_call_passes_empty_string_body:
  "req_opts literal_numbers
     \<lparr> arg_method = js ''POST'', arg_path = js ''users/logout'', arg_data = JUndefined, arg_token = None \<rparr>
     = \<lparr> http_method = js ''POST'', headers = [], body = Some [] \<rparr>
   \<and> body (req_opts literal_numbers
             \<lparr> arg_method = js ''POST'', arg_path = js ''users/logout'', arg_data = JUndefined, arg_token = None \<rparr>)
       \<noteq> None
   \<and> api_post literal_numbers (fetch_returning (js ''{}'')) (js ''users/logout'') JUndefined None
       = (case fetch_returning (js ''{}'') (js ''http://localhost:8000/api/users/logout'')
                 \<lparr> http_method = js ''POST'', headers = [], body = Some [] \<rparr> of
            Inl e \<Rightarrow> Inl e
          | Inr json \<Rightarrow> decode literal_numbers json)"
proof -
  have o: "req_opts literal_numbers
     \<lparr> arg_method = js ''POST'', arg_path = js ''users/logout'', arg_data = JUndefined, arg_token = None \<rparr>
     = \<lparr> http_method = js ''POST'', headers = [], body = Some [] \<rparr>"
    by (simp add: no_data_no_token_options)
  have u: "req_url \<lparr> arg_method = js ''POST'', arg_path = js ''users/logout'',
                     arg_data = (JUndefined :: jsstring jsval), arg_token = None \<rparr>
             = js ''http://localhost:8000/api/users/logout''"
    by (simp add: req_url_def base_def js_def)
  show ?thesis
    by (simp add: o u api_post_def req_def)
qed

text \<open>
  C9. The fallback of the decode rule is idempotent: a text that is not JSON is returned
  unchanged, and the decode rule applied to the returned text returns it again.
\<close>

theorem raw_text_fallback_idempotent:
  assumes "JSON_parse ops s = Inl e"
  shows "decode ops s = Inr (JStr s)
         \<and> (\<forall>r. decode ops s = Inr (JStr r) \<longrightarrow> decode ops r = Inr (JStr r))"
  using assms by (simp add: decode_def)

theorem raw_text_fallback_idempotent_witness:
  "JSON_parse literal_numbers (js ''Internal Server Error'') = Inl SyntaxError
   \<and> decode literal_numbers (js ''Internal Server Error'') = Inr (JStr (js ''Internal Server Error''))"
  using raw_text_fallback_idempotent [of literal_numbers "js ''Internal Server Error''" SyntaxError]
        parse_internal_server_error [of literal_numbers]
  by simp

section \<open>Properties of the login route\<close>

lemma login_data_truthy: "truthy ops (login_data rb)"
  by (simp add: login_data_def)

lemma login_opts:
  "req_opts ops \<lparr> arg_method = js ''POST'', arg_path = js ''users/login'',
                    arg_data = login_data rb, arg_token = None \<rparr>
     = \<lparr> http_method = js ''POST'',
         headers = [(''Content-Type'', js ''application/json'')],
         body = JSON_stringify ops (login_data rb) \<rparr>"
  by (simp add: req_opts_def Let_def set_header_def login_data_truthy)

lemma login_url:
  "req_url \<lparr> arg_method = js ''POST'', arg_path = js ''users/login'',
              arg_data = login_data rb, arg_token = None \<rparr>
     = js ''http://localhost:8000/api/users/login''"
  by (simp add: req_url_def base_def js_def)

lemma login_call:
  "api_post ops fetch (js ''users/login'') (login_data rb) None =
     (case fetch (js ''http://localhost:8000/api/users/login'')
                 \<lparr> http_method = js ''POST'',
                   headers = [(''Content-Type'', js ''application/json'')],
                   body = JSON_stringify ops (login_data rb) \<rparr> of
        Inl e \<Rightarrow> Inl e
      | Inr json \<Rightarrow> decode ops json)"
  by (simp add: api_post_def req_def login_opts login_url)

lemma login_body_text:
  "JSON_stringify ops (login_data rb) =
     Some (js ''{\"username\":'' @ quote_json_string (username rb)
           @ js '',\"password\":'' @ quote_json_string (password rb) @ js ''}'')"
  by (simp add: login_data_def js_def quote_json_string_def quote_unit_def
                is_lead_surrogate_def is_trail_surrogate_def)

lemma login_post_one_call:
  "login_post ops fetch rb =
     (case fetch (js ''http://localhost:8000/api/users/login'')
                 \<lparr> http_method = js ''POST'',
                   headers = [(''Content-Type'', js ''application/json'')],
                   body = JSON_stringify ops (login_data rb) \<rparr> of
        Inl e \<Rightarrow> Inl e
      | Inr json \<Rightarrow> login_post ops (fetch_returning json) rb)"
  by (simp add: login_post_def login_call fetch_returning_def split: sum.splits)

text \<open>
  C2. For every credential pair, \<open>post\<close> of the login route makes one call: a \<open>POST\<close> to
  \<open>users/login\<close> whose body is the JSON object of the \<open>username\<close> and the \<open>password\<close> and
  whose headers hold \<open>Content-Type\<close> only, so no \<open>Authorization\<close>; its result depends on the
  remote through the answer to that call alone. When the decoded answer is an object whose
  \<open>token\<close> is the string \<open>t\<close>, the \<open>set-cookie\<close> header of the result is exactly
  \<open>jwt=t; Path=/; HttpOnly\<close>, with \<open>t\<close> as it came and not Base64-encoded; for the answer
  \<open>{"token":"abc123"}\<close> it is \<open>jwt=abc123; Path=/; HttpOnly\<close>.
\<close>

theorem login_sets_raw_token_cookie:
  "login_post ops fetch rb =
     (case fetch (js ''http://localhost:8000/api/users/login'')
                 \<lparr> http_method = js ''POST'',
                   headers = [(''Content-Type'', js ''application/json'')],
                   body = Some (js ''{\"username\":'' @ quote_json_string (username rb)
                                @ js '',\"password\":'' @ quote_json_string (password rb) @ js ''}'') \<rparr> of
        Inl e \<Rightarrow> Inl e
      | Inr json \<Rightarrow> login_post ops (fetch_returning json) rb)
   \<and> req_opts ops \<lparr> arg_method = js ''POST'', arg_path = js ''users/login'',
                      arg_data = login_data rb, arg_token = None \<rparr>
       = \<lparr> http_method = js ''POST'',
           headers = [(''Content-Type'', js ''application/json'')],
           body = Some (js ''{\"username\":'' @ quote_json_string (username rb)
                        @ js '',\"password\":'' @ quote_json_string (password rb) @ js ''}'') \<rparr>
   \<and> map_of (headers (req_opts ops \<lparr> arg_method = js ''POST'', arg_path = js ''users/login'',
                                      arg_data = login_data rb, arg_token = None \<rparr>))
             ''Authorization'' = None
   \<and> (\<forall>json ps t.
          fetch (js ''http://localhost:8000/api/users/login'')
                \<lparr> http_method = js ''POST'',
                  headers = [(''Content-Type'', js ''application/json'')],
                  body = Some (js ''{\"username\":'' @ quote_json_string (username rb)
                               @ js '',\"password\":'' @ quote_json_string (password rb) @ js ''}'') \<rparr>
            = Inr json
          \<and> decode ops json = Inr (JObj ps) \<and> map_of ps (js ''token'') = Some (JStr t) \<longrightarrow>
          login_post ops fetch rb =
            Inr \<lparr> resp_headers = [(''set-cookie'', js ''jwt='' @ t @ js ''; Path=/; HttpOnly'')],
                  resp_body = JObj ps \<rparr>)
   \<and> (fetch (js ''http://localhost:8000/api/users/login'')
             \<lparr> http_method = js ''POST'',
               headers = [(''Content-Type'', js ''application/json'')],
               body = Some (js ''{\"username\":'' @ quote_json_string (username rb)
                            @ js '',\"password\":'' @ quote_json_string (password rb) @ js ''}'') \<rparr>
          = Inr (js ''{\"token\":\"abc123\"}'') \<longrightarrow>
        login_post ops fetch rb =
          Inr \<lparr> resp_headers = [(''set-cookie'', js ''jwt=abc123; Path=/; HttpOnly'')],
                resp_body = JObj [(js ''token'', JStr (js ''abc123''))] \<rparr>)"
proof -
  have sent: "req_opts ops \<lparr> arg_method = js ''POST'', arg_path = js ''users/login'',
                      arg_data = login_data rb, arg_token = None \<rparr>
       = \<lparr> http_method = js ''POST'',
           headers = [(''Content-Type'', js ''application/json'')],
           body = Some (js ''{\"username\":'' @ quote_json_string (username rb)
                        @ js '',\"password\":'' @ quote_json_string (password rb) @ js ''}'') \<rparr>"
    by (simp only: login_opts login_body_text)
  have one: "login_post ops fetch rb =
     (case fetch (js ''http://localhost:8000/api/users/login'')
                 \<lparr> http_method = js ''POST'',
                   headers = [(''Content-Type'', js ''application/json'')],
                   body = Some (js ''{\"username\":'' @ quote_json_string (username rb)
                                @ js '',\"password\":'' @ quote_json_string (password rb) @ js ''}'') \<rparr> of
        Inl e \<Rightarrow> Inl e
      | Inr json \<Rightarrow> login_post ops (fetch_returning json) rb)"
    using login_post_one_call [of ops fetch rb] by (simp only: login_body_text)
  have after: "login_post ops (fetch_returning json) rb =
                 Inr \<lparr> resp_headers = [(''set-cookie'', js ''jwt='' @ t @ js ''; Path=/; HttpOnly'')],
                       resp_body = JObj ps \<rparr>"
    if "decode ops json = Inr (JObj ps)" and "map_of ps (js ''token'') = Some (JStr t)" for json ps t
    using that by (simp add: login_post_def login_call fetch_returning_def)
  have "decode ops (js ''{\"token\":\"abc123\"}'') = Inr (JObj [(js ''token'', JStr (js ''abc123''))])"
    by (simp add: decode_def parse_token_object)
  then have example: "login_post ops (fetch_returning (js ''{\"token\":\"abc123\"}'')) rb =
          Inr \<lparr> resp_headers = [(''set-cookie'', js ''jwt=abc123; Path=/; HttpOnly'')],
                resp_body = JObj [(js ''token'', JStr (js ''abc123''))] \<rparr>"
    using after [of "js ''{\"token\":\"abc123\"}''" "[(js ''token'', JStr (js ''abc123''))]" "js ''abc123''"]
    by (simp add: js_def)
  have auth: "map_of (headers (req_opts ops \<lparr> arg_method = js ''POST'', arg_path = js ''users/login'',
                                      arg_data = login_data rb, arg_token = None \<rparr>))
             ''Authorization'' = None"
    by (simp add: login_opts)
  have general: "login_post ops fetch rb =
            Inr \<lparr> resp_headers = [(''set-cookie'', js ''jwt='' @ t @ js ''; Path=/; HttpOnly'')],
                  resp_body = JObj ps \<rparr>"
    if "fetch (js ''http://localhost:8000/api/users/login'')
                \<lparr> http_method = js ''POST'',
                  headers = [(''Content-Type'', js ''application/json'')],
                  body = Some (js ''{\"username\":'' @ quote_json_string (username rb)
                               @ js '',\"password\":'' @ quote_json_string (password rb) @ js ''}'') \<rparr>
            = Inr json"
       and "decode ops json = Inr (JObj ps)" and "map_of ps (js ''token'') = Some (JStr t)" for json ps t
    using one that(1) after [OF that(2,3)] by simp
  have particular: "login_post ops fetch rb =
          Inr \<lparr> resp_headers = [(''set-cookie'', js ''jwt=abc123; Path=/; HttpOnly'')],
                resp_body = JObj [(js ''token'', JStr (js ''abc123''))] \<rparr>"
    if "fetch (js ''http://localhost:8000/api/users/login'')
             \<lparr> http_method = js ''POST'',
               headers = [(''Content-Type'', js ''application/json'')],
               body = Some (js ''{\"username\":'' @ quote_json_string (username rb)
                            @ js '',\"password\":'' @ quote_json_string (password rb) @ js ''}'') \<rparr>
          = Inr (js ''{\"token\":\"abc123\"}'')"
    using one that example by simp
  show ?thesis
    using one sent auth general particular by blast
qed

lemma alice_body_text:
  "js ''{\"username\":'' @ quote_json_string (username alice)
     @ js '',\"password\":'' @ quote_json_string (password alice) @ js ''}''
   = js ''{\"username\":\"alice\",\"password\":\"secret\"}''"
  by (simp add: alice_def js_def quote_json_string_def quote_unit_def
                is_lead_surrogate_def is_trail_surrogate_def)

theorem login_sets_raw_token_cookie_witness:
  "fetch_returning (js ''{\"token\":\"abc123\"}'')
     (js ''http://localhost:8000/api/users/login'')
     \<lparr> http_method = js ''POST'',
       headers = [(''Content-Type'', js ''application/json'')],
       body = Some (js ''{\"username\":\"alice\",\"password\":\"secret\"}'') \<rparr>
     = Inr (js ''{\"token\":\"abc123\"}'')
   \<and> req_opts literal_numbers \<lparr> arg_method = js ''POST'', arg_path = js ''users/login'',
                      arg_data = login_data alice, arg_token = None \<rparr>
       = \<lparr> http_method = js ''POST'',
           headers = [(''Content-Type'', js ''application/json'')],
           body = Some (js ''{\"username\":\"alice\",\"password\":\"secret\"}'') \<rparr>
   \<and> login_post literal_numbers (fetch_returning (js ''{\"token\":\"abc123\"}'')) alice =
       Inr \<lparr> resp_headers = [(''set-cookie'', js ''jwt=abc123; Path=/; HttpOnly'')],
             resp_body = JObj [(js ''token'', JStr (js ''abc123''))] \<rparr>"
proof -
  have f: "fetch_returning (js ''{\"token\":\"abc123\"}'')
     (js ''http://localhost:8000/api/users/login'')
     \<lparr> http_method = js ''POST'',
       headers = [(''Content-Type'', js ''application/json'')],
       body = Some (js ''{\"username\":'' @ quote_json_string (username alice)
                    @ js '',\"password\":'' @ quote_json_string (password alice) @ js ''}'') \<rparr>
     = Inr (js ''{\"token\":\"abc123\"}'')"
    by (simp add: fetch_returning_def)
  show ?thesis
    using f login_sets_raw_token_cookie
            [where fetch = "fetch_returning (js ''{\"token\":\"abc123\"}'')" and ops = literal_numbers
               and rb = alice]
    by (simp only: alice_body_text) (simp add: fetch_returning_def)
qed

text \<open>
  C4. For every login whose response text is not JSON, such as \<open>Internal Server Error\<close>,
  the decoded body is that text, \<open>body['token']\<close> is \<open>undefined\<close>, and the \<open>set-cookie\<close>
  header is exactly \<open>jwt=undefined; Path=/; HttpOnly\<close>.
\<close>

theorem login_non_json_undefined_cookie:
  assumes "fetch (js ''http://localhost:8000/api/users/login'')
                 \<lparr> http_method = js ''POST'',
                   headers = [(''Content-Type'', js ''application/json'')],
                   body = JSON_stringify ops (login_data rb) \<rparr> = Inr json"
      and "JSON_parse ops json = Inl e"
  shows "decode ops json = Inr (JStr json)
         \<and> get_token (JStr json :: 'n jsval) = Inr JUndefined
         \<and> login_post ops fetch rb =
             Inr \<lparr> resp_headers = [(''set-cookie'', js ''jwt=undefined; Path=/; HttpOnly'')],
                   resp_body = JStr json \<rparr>"
proof -
  have d: "decode ops json = Inr (JStr json)"
    using assms(2) by (simp add: decode_def)
  have call: "api_post ops fetch (js ''users/login'') (login_data rb) None = Inr (JStr json)"
    using assms(1) d by (simp add: login_call)
  have "login_post ops fetch rb =
          Inr \<lparr> resp_headers = [(''set-cookie'', js ''jwt='' @ js ''undefined'' @ js ''; Path=/; HttpOnly'')],
                resp_body = JStr json \<rparr>"
    by (simp add: login_post_def call)
  then show ?thesis
    by (simp add: d js_def)
qed

theorem login_non_json_undefined_cookie_witness:
  "fetch_returning (js ''Internal Server Error'')
     (js ''http://localhost:8000/api/users/login'')
     \<lparr> http_method = js ''POST'',
       headers = [(''Content-Type'', js ''application/json'')],
       body = JSON_stringify literal_numbers (login_data alice) \<rparr>
     = Inr (js ''Internal Server Error'')
   \<and> JSON_parse literal_numbers (js ''Internal Server Error'') = Inl SyntaxError
   \<and> login_post literal_numbers (fetch_returning (js ''Internal Server Error'')) alice =
       Inr \<lparr> resp_headers = [(''set-cookie'', js ''jwt=undefined; Path=/; HttpOnly'')],
             resp_body = JStr (js ''Internal Server Error'') \<rparr>"
proof -
  have f: "fetch_returning (js ''Internal Server Error'')
     (js ''http://localhost:8000/api/users/login'')
     \<lparr> http_method = js ''POST'',
       headers = [(''Content-Type'', js ''application/json'')],
       body = JSON_stringify literal_numbers (login_data alice) \<rparr>
     = Inr (js ''Internal Server Error'')"
    by (simp add: fetch_returning_def)
  have p: "JSON_parse literal_numbers (js ''Internal Server Error'') = Inl SyntaxError"
    by (rule parse_internal_server_error)
  show ?thesis
    using f p login_non_json_undefined_cookie
              [where fetch = "fetch_returning (js ''Internal Server Error'')" and ops = literal_numbers
                 and rb = alice and json = "js ''Internal Server Error''" and e = SyntaxError]
    by simp
qed

section \<open>Properties of the session hook\<close>

text \<open>
  C8. For every headers object without a \<open>cookie\<close> header, \<open>getSession\<close> returns a session
  whose \<open>jwt\<close> is absent, and does not fail.
\<close>

theorem no_cookie_header_anonymous:
  assumes "map_of hdrs ''cookie'' = None"
  shows "getSession hdrs = Inr \<lparr> jwt = None \<rparr>"
  using assms by (simp add: getSession_def cookie_parse_def index_of_def)

theorem no_cookie_header_anonymous_witness:
  "map_of [(''host'', js ''localhost:3000'')] ''cookie'' = None
   \<and> getSession [(''host'', js ''localhost:3000'')] = Inr \<lparr> jwt = None \<rparr>"
  using no_cookie_header_anonymous [of "[(''host'', js ''localhost:3000'')]"]
  by simp

lemma tryDecode_returns: "\<exists>v. tryDecode s dec = Inr v"
  by (cases "dec s") (simp_all add: tryDecode_def)

lemma parse_pairs_returns: "\<exists>cookies. parse_pairs pairs obj = Inr cookies"
proof (induction pairs arbitrary: obj)
  case Nil
  show ?case by simp
next
  case (Cons pair pairs)
  show ?case
  proof (cases "index_of 61 pair")
    case None
    then show ?thesis using Cons.IH by simp
  next
    case (Some eq_idx)
    obtain v where v: "tryDecode (unquote (trim (drop (Suc eq_idx) pair))) decodeURIComponent = Inr v"
      using tryDecode_returns by blast
    show ?thesis
      using Some v Cons.IH by (simp add: Let_def)
  qed
qed

text \<open>
  C10. \<open>getSession\<close> returns a session for every headers object, whether the \<open>cookie\<close>
  header is absent, ill-formed, or holds a \<open>jwt\<close> that is not Base64: \<open>tryDecode\<close> catches
  the \<open>URIError\<close> of \<open>decodeURIComponent\<close>, and the Base64 and UTF-8 decoders accept every
  input. A \<open>jwt\<close> cookie whose value is the empty string gives the empty string as \<open>jwt\<close>.
\<close>

theorem getSession_total:
  "(\<exists>s. getSession hdrs = Inr s)
   \<and> (\<forall>cookies. cookie_parse (case map_of hdrs ''cookie'' of None \<Rightarrow> [] | Some c \<Rightarrow> c) = Inr cookies
                  \<and> map_of cookies (js ''jwt'') = Some []
        \<longrightarrow> getSession hdrs = Inr \<lparr> jwt = Some [] \<rparr>)"
proof -
  obtain cookies where
    "cookie_parse (case map_of hdrs ''cookie'' of None \<Rightarrow> [] | Some c \<Rightarrow> c) = Inr cookies"
    using parse_pairs_returns unfolding cookie_parse_def by blast
  then show ?thesis
    by (simp add: getSession_def)
qed

lemma cookie_parse_empty_jwt: "cookie_parse (js ''jwt='') = Inr [(js ''jwt'', [])]"
  by (simp add: cookie_parse_def js_def index_of_def trim_def unquote_def is_space_def
                object_prototype_names_def tryDecode_def decodeURIComponent_def set_prop_def
                array_index_def is_digit_def)

theorem getSession_total_witness:
  "cookie_parse (case map_of [(''cookie'', js ''jwt='')] ''cookie'' of None \<Rightarrow> [] | Some c \<Rightarrow> c)
     = Inr [(js ''jwt'', [])]
   \<and> map_of [(js ''jwt'', [])] (js ''jwt'') = Some []
   \<and> getSession [(''cookie'', js ''jwt='')] = Inr \<lparr> jwt = Some [] \<rparr>"
  using getSession_total [of "[(''cookie'', js ''jwt='')]"] cookie_parse_empty_jwt
  by simp

lemma base64_char_less: "v < 64 \<Longrightarrow> base64_char v < 256"
  unfolding base64_char_def by (cases "v < 52") (simp_all add: less_imp_diff_less)

lemma unbase64_low:
  "c < 256 \<Longrightarrow> unbase64 c =
     (if 65 \<le> c \<and> c \<le> 90 then Some (c - 65)
      else if 97 \<le> c \<and> c \<le> 122 then Some (c - 71)
      else if 48 \<le> c \<and> c \<le> 57 then Some (c + 4)
      else if c = 43 \<or> c = 45 then Some 62
      else if c = 47 \<or> c = 95 then Some 63
      else None)"
  by (simp add: unbase64_def Let_def)

lemma unbase64_base64_char: "v < 64 \<Longrightarrow> unbase64 (base64_char v) = Some v"
proof -
  assume v: "v < 64"
  consider "v < 26" | "26 \<le> v \<and> v < 52" | "52 \<le> v \<and> v < 62" | "v = 62" | "v = 63"
    using v by linarith
  then show ?thesis
  proof cases
    case 1
    then show ?thesis by (simp add: unbase64_low base64_char_def)
  next
    case 2
    then show ?thesis by (simp add: unbase64_low base64_char_def)
  next
    case 3
    then obtain w where w: "v = w + 4" "48 \<le> w" "w \<le> 57"
      using that [of "v - 4"] by linarith
    then show ?thesis
      by (simp add: unbase64_low base64_char_def)
  next
    case 4
    then show ?thesis by (simp add: unbase64_low base64_char_def)
  next
    case 5
    then show ?thesis by (simp add: unbase64_low base64_char_def)
  qed
qed

lemma base64_char_text: "v < 64 \<Longrightarrow> base64_text (base64_char v)"
proof -
  assume v: "v < 64"
  consider "v < 26" | "26 \<le> v \<and> v < 52" | "52 \<le> v \<and> v < 62" | "v = 62" | "v = 63"
    using v by linarith
  then show ?thesis
  proof cases
    case 1
    then show ?thesis by (simp add: base64_text_def base64_char_def)
  next
    case 2
    then show ?thesis by (simp add: base64_text_def base64_char_def)
  next
    case 3
    then obtain w where w: "v = w + 4" "48 \<le> w" "w \<le> 57"
      using that [of "v - 4"] by linarith
    then show ?thesis
      by (simp add: base64_text_def base64_char_def)
  next
    case 4
    then show ?thesis by (simp add: base64_text_def base64_char_def)
  next
    case 5
    then show ?thesis by (simp add: base64_text_def base64_char_def)
  qed
qed


lemma sextets_base64_char: "v < 64 \<Longrightarrow> sextets (base64_char v # cs) = v # sextets cs"
  by (simp add: unbase64_base64_char)

lemma sextets_pad: "sextets (61 # cs) = []"
  by (simp add: unbase64_def)

lemma sextet_bound_1: "(x::nat) < 256 \<Longrightarrow> x div 4 < 64"
  by simp

lemma sextet_bound_2:
  fixes x y :: nat
  assumes "y < 256"
  shows "16 * (x mod 4) + y div 16 < 64"
proof -
  have "x mod 4 < 4" by simp
  moreover have "y div 16 < 16" using assms by simp
  ultimately show ?thesis by linarith
qed

lemma sextet_bound_3:
  fixes y z :: nat
  assumes "z < 256"
  shows "4 * (y mod 16) + z div 64 < 64"
proof -
  have "y mod 16 < 16" by simp
  moreover have "z div 64 < 4" using assms by simp
  ultimately show ?thesis by linarith
qed

lemma sextet_bound_4: "(z::nat) mod 64 < 64" and "4 * ((y::nat) mod 16) < 64"
  and "16 * ((x::nat) mod 4) < 64"
  by simp_all

lemmas sextet_bounds = sextet_bound_1 sextet_bound_2 sextet_bound_3 sextet_bound_4

lemma regroup_1: "(y::nat) < 256 \<Longrightarrow> 4 * (x div 4) + (16 * (x mod 4) + y div 16) div 16 = x"
proof -
  assume "y < 256"
  then have "y div 16 < 16" by simp
  then have "(16 * (x mod 4) + y div 16) div 16 = x mod 4" by simp
  then show ?thesis by simp
qed

lemma regroup_2:
  "(y::nat) < 256 \<Longrightarrow> z < 256 \<Longrightarrow>
   16 * ((16 * (x mod 4) + y div 16) mod 16) + (4 * (y mod 16) + z div 64) div 4 = y"
proof -
  assume "y < 256" and "z < 256"
  then have "y div 16 < 16" and "z div 64 < 4" by simp_all
  then have "(16 * (x mod 4) + y div 16) mod 16 = y div 16"
        and "(4 * (y mod 16) + z div 64) div 4 = y mod 16" by simp_all
  then show ?thesis by simp
qed

lemma regroup_3: "(z::nat) < 256 \<Longrightarrow> 64 * ((4 * (y mod 16) + z div 64) mod 4) + z mod 64 = z"
proof -
  assume "z < 256"
  then have "z div 64 < 4" by simp
  then have "(4 * (y mod 16) + z div 64) mod 4 = z div 64" by simp
  then show ?thesis by simp
qed

lemma regroup_4:
  "(y::nat) < 256 \<Longrightarrow> 16 * ((16 * (x mod 4) + y div 16) mod 16) + (4 * (y mod 16)) div 4 = y"
proof -
  assume "y < 256"
  then have "y div 16 < 16" by simp
  then have "(16 * (x mod 4) + y div 16) mod 16 = y div 16" by simp
  then show ?thesis by simp
qed

lemma regroup_5: "4 * ((x::nat) div 4) + (16 * (x mod 4)) div 16 = x"
  by simp

lemma base64_encode_text:
  "list_all (\<lambda>b. b < 256) bs \<Longrightarrow> list_all base64_text (base64_encode bs)"
proof (induction bs rule: base64_encode.induct)
  case (1 x y z rest)
  have "x < 256" "y < 256" "z < 256"
    using "1.prems" by simp_all
  then show ?case
    using 1 by (simp add: base64_char_text sextet_bounds)
next
  case (2 x y)
  have "x < 256" "y < 256"
    using "2.prems" by simp_all
  then show ?case
    by (simp add: base64_char_text sextet_bounds) (simp add: base64_text_def)
next
  case (3 x)
  have "x < 256"
    using "3.prems" by simp
  then show ?case
    by (simp add: base64_char_text sextet_bounds) (simp add: base64_text_def)
next
  case 4
  show ?case by simp
qed

lemma base64_decode_encode:
  "list_all (\<lambda>b. b < 256) bs \<Longrightarrow> base64_decode (base64_encode bs) = bs"
  unfolding base64_decode_def
proof (induction bs rule: base64_encode.induct)
  case (1 x y z rest)
  have b: "x < 256" "y < 256" "z < 256"
    using "1.prems" by simp_all
  have "sextets (base64_encode (x # y # z # rest)) =
          x div 4 # (16 * (x mod 4) + y div 16) # (4 * (y mod 16) + z div 64) # z mod 64
            # sextets (base64_encode rest)"
    using b by (simp add: sextets_base64_char sextet_bounds del: sextets.simps)
  then show ?case
    using 1 b by (simp add: regroup_1 regroup_2 regroup_3)
next
  case (2 x y)
  have b: "x < 256" "y < 256"
    using "2.prems" by simp_all
  have "sextets (base64_encode [x, y]) = [x div 4, 16 * (x mod 4) + y div 16, 4 * (y mod 16)]"
    using b by (simp add: sextets_base64_char sextet_bounds sextets_pad del: sextets.simps)
  then show ?case
    using b by (simp add: regroup_1 regroup_4)
next
  case (3 x)
  have b: "x < 256"
    using "3.prems" by simp
  have "sextets (base64_encode [x]) = [x div 4, 16 * (x mod 4)]"
    using b by (simp add: sextets_base64_char sextet_bounds sextets_pad del: sextets.simps)
  then show ?case
    by (simp add: regroup_5)
next
  case 4
  show ?case by simp
qed

lemma base64_text_plain:
  "base64_text c \<Longrightarrow> c \<noteq> 59 \<and> c \<noteq> 37 \<and> c \<noteq> 34 \<and> \<not> is_space c"
  by (auto simp: base64_text_def is_space_def)

lemma split_pairs_single: "59 \<notin> set s \<Longrightarrow> split_pairs s = [s]"
proof -
  assume "59 \<notin> set s"
  then have d: "dropWhile (\<lambda>c. c \<noteq> 59) s = []"
    by (induction s) auto
  show ?thesis
    by (subst split_pairs.simps) (simp only: d list.case)
qed

lemma trim_plain: "list_all (\<lambda>c. \<not> is_space c) s \<Longrightarrow> trim s = s"
proof -
  assume a: "list_all (\<lambda>c. \<not> is_space c) s"
  have d: "dropWhile is_space xs = xs" if "list_all (\<lambda>c. \<not> is_space c) xs" for xs
    using that by (cases xs) simp_all
  have "list_all (\<lambda>c. \<not> is_space c) (rev s)"
    using a by (simp add: list_all_iff)
  then show ?thesis
    using a by (simp add: trim_def d)
qed

lemma unquote_plain: "list_all (\<lambda>c. c \<noteq> 34) s \<Longrightarrow> unquote s = s"
  by (cases s) (simp_all add: unquote_def)

lemma percent_items_plain: "list_all (\<lambda>c. c \<noteq> 37) s \<Longrightarrow> percent_items s = Some (map Lit s)"
  by (induction s) (simp_all add: cons_item_def)

lemma decode_items_plain: "decode_items (map Lit s) = Inr s"
  by (induction s) simp_all

lemma decodeURIComponent_plain: "list_all (\<lambda>c. c \<noteq> 37) s \<Longrightarrow> decodeURIComponent s = Inr s"
  by (simp add: decodeURIComponent_def percent_items_plain decode_items_plain)

lemma parse_single_pair:
  assumes "index_of 61 pair = Some i"
      and "trim (take i pair) = key"
      and "unquote (trim (drop (Suc i) pair)) = val"
      and "tryDecode val decodeURIComponent = Inr v"
      and "key \<notin> set object_prototype_names"
  shows "parse_pairs [pair] [] = Inr (set_prop [] key v)"
  using assms by (simp add: Let_def)

lemma cookie_parse_jwt:
  assumes "list_all base64_text e"
  shows "cookie_parse (js ''jwt='' @ e) = Inr [(js ''jwt'', e)]"
proof -
  have plain: "list_all (\<lambda>c. c \<noteq> 59) e" "list_all (\<lambda>c. c \<noteq> 37) e"
              "list_all (\<lambda>c. c \<noteq> 34) e" "list_all (\<lambda>c. \<not> is_space c) e"
    using assms base64_text_plain by (simp_all add: list_all_iff)
  have "59 \<notin> set (js ''jwt='' @ e)"
    using plain(1) by (auto simp: js_def list_all_iff)
  then have pairs: "split_pairs (js ''jwt='' @ e) = [js ''jwt='' @ e]"
    by (rule split_pairs_single)
  have idx: "index_of 61 (js ''jwt='' @ e) = Some 3"
    by (simp add: index_of_def js_def)
  have key: "trim (take 3 (js ''jwt='' @ e)) = js ''jwt''"
    by (simp add: js_def trim_def is_space_def)
  have val: "unquote (trim (drop (Suc 3) (js ''jwt='' @ e))) = e"
    using plain by (simp add: js_def trim_plain unquote_plain)
  have dec: "tryDecode e decodeURIComponent = Inr e"
    using plain(2) by (simp add: tryDecode_def decodeURIComponent_plain)
  have fresh: "js ''jwt'' \<notin> set object_prototype_names"
    by (simp add: object_prototype_names_def js_def)
  have store: "set_prop [] (js ''jwt'') e = [(js ''jwt'', e)]"
    by (simp add: set_prop_def array_index_def js_def is_digit_def)
  show ?thesis
    unfolding cookie_parse_def pairs
    using parse_single_pair [OF idx key val dec fresh] by (simp only: store)
qed

lemma utf8_run_ascii: "list_all (\<lambda>b. b < 128) bs \<Longrightarrow> utf8_run Start bs = bs"
  by (induction bs) (simp_all add: utf8_lead_def)

lemma utf8_to_string_ascii: "list_all (\<lambda>b. b < 128) bs \<Longrightarrow> utf8_to_string bs = bs"
proof -
  assume a: "list_all (\<lambda>b. b < 128) bs"
  have "concat (map utf16_units xs) = xs" if "list_all (\<lambda>b. b < 128) xs" for xs
    using that by (induction xs) (simp_all add: utf16_units_def)
  then show ?thesis
    using a by (simp add: utf8_to_string_def utf8_run_ascii)
qed

text \<open>
  C3. For every printable-ASCII token \<open>t\<close>, \<open>getSession\<close> on headers whose \<open>cookie\<close> is
  \<open>jwt=\<close> followed by the Base64 of \<open>t\<close> returns the session whose \<open>jwt\<close> is \<open>t\<close>.
\<close>

theorem base64_cookie_roundtrip:
  assumes "printable_ascii t"
      and "map_of hdrs ''cookie'' = Some (js ''jwt='' @ base64_encode t)"
  shows "getSession hdrs = Inr \<lparr> jwt = Some t \<rparr>"
proof -
  have small: "list_all (\<lambda>b. b < 128) t" "list_all (\<lambda>b. b < 256) t"
    using assms(1) by (auto simp: printable_ascii_def list_all_iff)
  have cookies: "cookie_parse (js ''jwt='' @ base64_encode t) = Inr [(js ''jwt'', base64_encode t)]"
    using small(2) by (simp add: cookie_parse_jwt base64_encode_text)
  have decoded: "utf8_to_string (base64_decode (base64_encode t)) = t"
    using small by (simp add: base64_decode_encode utf8_to_string_ascii)
  have empty: "t = []" if "base64_encode t = []"
    using that by (cases t rule: base64_encode.cases) simp_all
  show ?thesis
    using empty by (auto simp: getSession_def assms(2) cookies decoded)
qed

theorem base64_cookie_roundtrip_witness:
  "printable_ascii (js ''abc123'')
   \<and> map_of [(''cookie'', js ''jwt=YWJjMTIz'')] ''cookie'' = Some (js ''jwt='' @ base64_encode (js ''abc123''))
   \<and> getSession [(''cookie'', js ''jwt=YWJjMTIz'')] = Inr \<lparr> jwt = Some (js ''abc123'') \<rparr>"
proof -
  have p: "printable_ascii (js ''abc123'')"
    by (simp add: printable_ascii_def js_def)
  have h: "map_of [(''cookie'', js ''jwt=YWJjMTIz'')] ''cookie'' = Some (js ''jwt='' @ base64_encode (js ''abc123''))"
    by (simp add: js_def base64_char_def)
  show ?thesis
    using p h base64_cookie_roundtrip [OF p h] by simp
qed

end
